theory Spec2Isabelle
  imports Complex_Main "HOL-Library.Log_Nat"
begin

section \<open>JavaScript values used by the payment forms\<close>

text \<open>
  Strings are lists of characters, one element per code unit. A value that may be
  \<open>undefined\<close> or \<open>null\<close> is an \<open>option\<close>.

  A number is an IEEE 754 binary64 value. It is written here as a rational: a prop or a
  literal as the decimal it is given as, and \<open>binary64\<close> gives the number that JavaScript
  holds for it, the nearest one with a significand of 53 bits, a tie going to the even
  significand. Every arithmetic operation rounds its exact result in the same way.
  Numbers beyond the largest finite one (about \<open>1.8e308\<close>), which JavaScript turns into
  \<open>Infinity\<close>, are outside the model.
\<close>

definition is_digit :: "char \<Rightarrow> bool" where
  \<comment> \<open>the class \<open>[0-9]\<close> and \<open>\\d\<close>\<close>
  "is_digit c = (c \<in> set ''0123456789'')"

definition is_space :: "char \<Rightarrow> bool" where
  \<comment> \<open>the class \<open>\\s\<close> on code units below 256: tab, LF, VT, FF, CR, space, NBSP\<close>
  "is_space c = (c \<in> {CHR 0x09, CHR 0x0A, CHR 0x0B, CHR 0x0C, CHR 0x0D, CHR 0x20, CHR 0xA0})"

definition truthy :: "string option \<Rightarrow> bool" where
  \<comment> \<open>an undefined value and the empty string are falsy\<close>
  "truthy v = (case v of None \<Rightarrow> False | Some s \<Rightarrow> s \<noteq> [])"

definition js_or :: "string option \<Rightarrow> string option \<Rightarrow> string option" where
  \<comment> \<open>\<open>a || b\<close>\<close>
  "js_or a b = (if truthy a then a else b)"

definition or_default :: "string option \<Rightarrow> string \<Rightarrow> string" where
  \<comment> \<open>\<open>a || 'literal'\<close>\<close>
  "or_default a d = (case a of None \<Rightarrow> d | Some s \<Rightarrow> if s = [] then d else s)"

definition substring :: "string \<Rightarrow> nat \<Rightarrow> nat \<Rightarrow> string" where
  \<comment> \<open>\<open>s.substring(a, b)\<close>: both indices are clamped to the length and swapped when \<open>a > b\<close>\<close>
  "substring s a b =
     (let a' = min a (length s); b' = min b (length s)
      in take (max a' b' - min a' b') (drop (min a' b') s))"

definition round_half_even :: "rat \<Rightarrow> int" where
  \<comment> \<open>the nearest integer, a tie going to the even one\<close>
  "round_half_even x =
     (let f = \<lfloor>x\<rfloor>; r = x - of_int f
      in if r < 1 / 2 then f else if 1 / 2 < r then f + 1 else if even f then f else f + 1)"

definition exponent :: "rat \<Rightarrow> int" where
  \<comment> \<open>for \<open>x > 0\<close>, the \<open>e\<close> with \<open>2 ^ e \<le> x < 2 ^ (e + 1)\<close>: the bit lengths of numerator and
      denominator give it up to one\<close>
  "exponent x =
     (let (p, q) = quotient_of x; d = bitlen p - bitlen q
      in if power_int 2 d \<le> x then d else d - 1)"

definition binary64 :: "rat \<Rightarrow> rat" where
  \<comment> \<open>rounding to the nearest binary64 number: a multiple of \<open>2 ^ (e - 52)\<close>, where \<open>e\<close> is
      the exponent of \<open>x\<close> and at least \<open>-1022\<close> (below that the numbers are subnormal)\<close>
  "binary64 x =
     (if x = 0 then 0
      else let e = max (exponent \<bar>x\<bar>) (- 1022); q = power_int 2 (e - 52)
           in of_int (round_half_even (x / q)) * q)"

definition Math_round :: "rat \<Rightarrow> int" where
  \<comment> \<open>\<open>Math.round\<close>: nearest integer, a tie goes up; exact on every finite number\<close>
  "Math_round x = \<lfloor>x + 1 / 2\<rfloor>"

section \<open>MeshaltoPayment: props, state and the JSON of the server\<close>

datatype gateway = Stripe | Square | PayPal | Auto

fun gateway_name :: "gateway \<Rightarrow> string" where
  "gateway_name Stripe = ''stripe''"
| "gateway_name Square = ''square''"
| "gateway_name PayPal = ''paypal''"
| "gateway_name Auto = ''auto''"

record props =
  apiUrl :: string
  apiKey :: string
  amount :: rat
  currency :: string
  gateway :: gateway

text \<open>The fields of a response body that the forms read; each may be absent.\<close>

record json_data =
  status :: "string option"
  error_message :: "string option"
  error :: "string option"
  message :: "string option"
  detail :: "string option"
  error_code :: "string option"
  transaction_id :: "string option"
  served_by :: "string option"

record payment_state =
  loading :: bool
  selectedGateway :: gateway
  cardNumber :: string
  expiryDate :: string
  cvv :: string
  cardholderName :: string
  error_text :: "string option"
  showSuccessModal :: bool
  showErrorModal :: bool
  showLoadingModal :: bool
  paymentData :: "json_data option"
  errorData :: "(string \<times> string option) option"

definition initial_state :: "gateway \<Rightarrow> payment_state" where
  \<comment> \<open>the \<open>useState\<close> initial values; \<open>selectedGateway\<close> starts as the \<open>gateway\<close> prop\<close>
  "initial_state g =
     \<lparr>loading = False, selectedGateway = g, cardNumber = [], expiryDate = [], cvv = [],
      cardholderName = [], error_text = None, showSuccessModal = False,
      showErrorModal = False, showLoadingModal = False, paymentData = None,
      errorData = None\<rparr>"

definition sync_gateway :: "gateway \<Rightarrow> payment_state \<Rightarrow> payment_state" where
  \<comment> \<open>the effect \<open>setSelectedGateway(gateway)\<close>, run when the prop changes\<close>
  "sync_gateway g st = st\<lparr>selectedGateway := g\<rparr>"

section \<open>The request of the generic card form\<close>

datatype piece = Lit string | Num rat

record customer =
  cust_email :: string
  cust_name :: string

record payment_token =
  tok_token :: string
  tok_brand :: string

record request_body =
  body_amount :: rat
  body_currency :: string
  body_payment_method :: string
  body_description :: "piece list"
  body_customer :: customer
  body_payment_token :: payment_token

record http_request =
  req_url :: string
  req_body :: request_body
  req_headers :: "(string \<times> string) list"

definition gatewayEndpoint :: "gateway \<Rightarrow> string" where
  \<comment> \<open>\<open>selectedGateway === 'auto' ? 'stripe' : selectedGateway\<close>\<close>
  "gatewayEndpoint g = (if g = Auto then ''stripe'' else gateway_name g)"

definition card_token :: "string \<Rightarrow> string" where
  \<comment> \<open>\<open>cardNumber.replace(/\\s/g, '').substring(0, 16)\<close>\<close>
  "card_token cn = substring (filter (\<lambda>c. \<not> is_space c) cn) 0 16"

definition build_request :: "props \<Rightarrow> payment_state \<Rightarrow> http_request" where
  "build_request P st =
     \<lparr>req_url = apiUrl P @ ''/process/'' @ gatewayEndpoint (selectedGateway st),
      req_body =
        \<lparr>body_amount = amount P,
         body_currency = currency P,
         body_payment_method = ''card'',
         body_description = [Lit ''Payment of '', Lit (currency P), Lit '' '', Num (amount P)],
         body_customer = \<lparr>cust_email = ''customer@example.com'', cust_name = cardholderName st\<rparr>,
         body_payment_token = \<lparr>tok_token = card_token (cardNumber st), tok_brand = ''visa''\<rparr>\<rparr>,
      req_headers = [(''Content-Type'', ''application/json''), (''x-api-key'', apiKey P)]\<rparr>"

section \<open>handleSubmit of the generic card form\<close>

text \<open>
  \<open>axios.post\<close> either resolves with a response whose \<open>data\<close> may be empty, or rejects
  with an error that may carry a response body and a message. An \<open>Error\<close> thrown inside
  the \<open>try\<close> block is a rejection with a message and no response.
\<close>

record thrown =
  err_data :: "json_data option"
  err_message :: "string option"

datatype axios_outcome = Resolved "json_data option" | Rejected thrown

datatype event = Post http_request | OnSuccess json_data | OnError string

definition new_Error :: "string \<Rightarrow> thrown" where
  "new_Error m = \<lparr>err_data = None, err_message = Some m\<rparr>"

definition errorMessage :: "thrown \<Rightarrow> string" where
  \<comment> \<open>\<open>err.response?.data?.detail || err.response?.data?.message || err.message || 'Payment failed'\<close>\<close>
  "errorMessage err =
     or_default
       (js_or (js_or (case err_data err of None \<Rightarrow> None | Some d \<Rightarrow> detail d)
                     (case err_data err of None \<Rightarrow> None | Some d \<Rightarrow> message d))
              (err_message err))
       ''Payment failed''"

definition errorCode :: "thrown \<Rightarrow> string option" where
  "errorCode err = (case err_data err of None \<Rightarrow> None | Some d \<Rightarrow> error_code d)"

definition catch_block :: "thrown \<Rightarrow> payment_state \<Rightarrow> payment_state \<times> event list" where
  \<comment> \<open>the \<open>catch\<close> and \<open>finally\<close> blocks\<close>
  "catch_block err st =
     (st\<lparr>showLoadingModal := False,
         error_text := Some (errorMessage err),
         errorData := Some (errorMessage err, errorCode err),
         showErrorModal := True,
         loading := False\<rparr>,
      [OnError (errorMessage err)])"

definition fields_missing :: "payment_state \<Rightarrow> bool" where
  \<comment> \<open>\<open>!cardNumber || !expiryDate || !cvv || !cardholderName\<close>\<close>
  "fields_missing st =
     (cardNumber st = [] \<or> expiryDate st = [] \<or> cvv st = [] \<or> cardholderName st = [])"

definition is_completed :: "json_data option \<Rightarrow> bool" where
  \<comment> \<open>\<open>response.data && response.data.status === 'completed'\<close>\<close>
  "is_completed d = (case d of None \<Rightarrow> False | Some r \<Rightarrow> status r = Some ''completed'')"

definition handleSubmit ::
  "props \<Rightarrow> (http_request \<Rightarrow> axios_outcome) \<Rightarrow> payment_state \<Rightarrow> payment_state \<times> event list" where
  "handleSubmit P post st0 =
     (let st = st0\<lparr>loading := True, showLoadingModal := True, error_text := None\<rparr>
      in if fields_missing st then catch_block (new_Error ''Please fill in all fields'') st
         else
           (let req = build_request P st
            in case post req of
                 Rejected err \<Rightarrow>
                   (let (st', evs) = catch_block err st in (st', Post req # evs))
               | Resolved d \<Rightarrow>
                   (let st1 = st\<lparr>showLoadingModal := False\<rparr>
                    in if is_completed d
                       then (st1\<lparr>paymentData := d, showSuccessModal := True, loading := False\<rparr>,
                             [Post req, OnSuccess (the d)])
                       else
                         (let (st', evs) =
                                catch_block
                                  (new_Error
                                     (or_default
                                        (case d of None \<Rightarrow> None | Some r \<Rightarrow> error_message r)
                                        ''Payment failed''))
                                  st1
                          in (st', Post req # evs)))))"

definition app_props :: "string \<Rightarrow> props" where
  \<comment> \<open>the props that \<open>App\<close> passes; the API key comes from the environment\<close>
  "app_props key =
     \<lparr>apiUrl = ''http://localhost:8002'', apiKey = key, amount = 439 / 100,
      currency = ''USD'', gateway = Auto\<rparr>"

definition posts :: "event list \<Rightarrow> http_request list" where
  "posts evs = concat (map (\<lambda>e. case e of Post r \<Rightarrow> [r] | _ \<Rightarrow> []) evs)"

section \<open>The input handlers of the generic card form\<close>

definition strip_digits :: "string \<Rightarrow> string" where
  \<comment> \<open>\<open>value.replace(/\\s+/g, '').replace(/[^0-9]/gi, '')\<close>\<close>
  "strip_digits v = filter is_digit (filter (\<lambda>c. \<not> is_space c) v)"

fun first_match :: "string \<Rightarrow> string" where
  \<comment> \<open>\<open>(matches && matches[0]) || ''\<close> for \<open>v.match(/\\d{4,16}/g)\<close>: the leftmost run of at
      least four digits, cut after sixteen\<close>
  "first_match [] = []"
| "first_match (c # cs) =
     (let run = takeWhile is_digit (c # cs)
      in if 4 \<le> length run then take 16 run else first_match cs)"

function push_parts :: "string \<Rightarrow> nat \<Rightarrow> string list \<Rightarrow> string list" where
  \<comment> \<open>\<open>for (let i = 0, len = match.length; i < len; i += 4) parts.push(match.substring(i, i + 4))\<close>\<close>
  "push_parts match i parts =
     (if i < length match
      then push_parts match (i + 4) (parts @ [substring match i (i + 4)])
      else parts)"
  by pat_completeness auto
termination
  by (relation "measure (\<lambda>(match, i, parts). length match - i)") auto

declare push_parts.simps [simp del]

fun join_space :: "string list \<Rightarrow> string" where
  \<comment> \<open>\<open>parts.join(' ')\<close>\<close>
  "join_space [] = []"
| "join_space [p] = p"
| "join_space (p # q # ps) = p @ '' '' @ join_space (q # ps)"

definition formatCardNumber :: "string \<Rightarrow> string" where
  "formatCardNumber v0 =
     (let v = strip_digits v0;
          match = first_match v;
          parts = push_parts match 0 []
      in if parts \<noteq> [] then join_space parts else v0)"

definition formatExpiryDate :: "string \<Rightarrow> string" where
  "formatExpiryDate v0 =
     (let v = strip_digits v0
      in if 2 \<le> length v then substring v 0 2 @ ''/'' @ substring v 2 4 else v)"

definition handleCardNumberChange :: "string \<Rightarrow> payment_state \<Rightarrow> payment_state" where
  "handleCardNumberChange v st =
     (let formatted = formatCardNumber v
      in if length formatted \<le> 19 then st\<lparr>cardNumber := formatted\<rparr> else st)"

definition handleExpiryDateChange :: "string \<Rightarrow> payment_state \<Rightarrow> payment_state" where
  "handleExpiryDateChange v st =
     (let formatted = formatExpiryDate v
      in if length formatted \<le> 5 then st\<lparr>expiryDate := formatted\<rparr> else st)"

definition handleCvvChange :: "string \<Rightarrow> payment_state \<Rightarrow> payment_state" where
  "handleCvvChange v0 st =
     (let v = filter is_digit v0
      in if length v \<le> 4 then st\<lparr>cvv := v\<rparr> else st)"

datatype input_event =
  CardNumberInput string
| ExpiryDateInput string
| CvvInput string
| CardholderNameInput string
| GatewaySelect gateway

fun handle_input :: "props \<Rightarrow> payment_state \<Rightarrow> input_event \<Rightarrow> payment_state" where
  "handle_input P st (CardNumberInput v) = handleCardNumberChange v st"
| "handle_input P st (ExpiryDateInput v) = handleExpiryDateChange v st"
| "handle_input P st (CvvInput v) = handleCvvChange v st"
| "handle_input P st (CardholderNameInput v) = st\<lparr>cardholderName := v\<rparr>"
| "handle_input P st (GatewaySelect g) =
     (if gateway P = Auto then st\<lparr>selectedGateway := g\<rparr> else st)"
  \<comment> \<open>the selector is rendered only when the \<open>gateway\<close> prop is \<open>'auto'\<close>\<close>

definition after_inputs :: "props \<Rightarrow> input_event list \<Rightarrow> payment_state" where
  "after_inputs P evs = foldl (handle_input P) (initial_state (gateway P)) evs"

section \<open>Which form is rendered\<close>



section \<open>Two submissions in a row\<close>

definition submit_twice ::
  "props \<Rightarrow> (http_request \<Rightarrow> axios_outcome) \<Rightarrow> (http_request \<Rightarrow> axios_outcome) \<Rightarrow>
   payment_state \<Rightarrow> payment_state \<times> event list \<times> event list" where
  "submit_twice P post1 post2 st =
     (let (st1, evs1) = handleSubmit P post1 st;
          (st2, evs2) = handleSubmit P post2 st1
      in (st2, evs1, evs2))"

section \<open>The Stripe checkout form\<close>

record checkout_props =
  co_amount :: rat
  co_currency :: string

record checkout_state =
  co_name :: string
  co_email :: string
  co_phone :: string
  co_address :: string
  co_city :: string
  co_state :: string
  co_zipCode :: string
  co_country :: string
  isProcessing :: bool

record billing_address =
  line1 :: string
  city :: string
  state :: string
  postal_code :: string
  country :: string

record billing_details =
  bd_name :: string
  bd_email :: string
  bd_phone :: "string option"
  bd_address :: billing_address

record checkout_token =
  ct_token :: string
  ct_token_type :: string

datatype js_text = Text string | UpperCased string

record checkout_body =
  cb_amount :: rat
  cb_currency :: js_text
  cb_payment_method :: string
  cb_customer :: billing_details
  cb_payment_token :: checkout_token

record fetch_request =
  fr_url :: string
  fr_method :: string
  fr_headers :: "(string \<times> string) list"
  fr_body :: checkout_body

record environment =
  VITE_MESHALTO_API_URL :: "string option"
  VITE_MESHALTO_API_URL_STRIPE_PATH :: "string option"
  VITE_MESHALTO_API_URL_SQUARE_PATH :: "string option"
  VITE_MESHALTO_API_KEY :: "string option"

datatype pm_outcome = PmThrows "string option" | PmError "string option" | PmCreated string

datatype fetch_outcome =
  FetchThrows "string option"
| FetchResponse bool "string option + json_data"
  \<comment> \<open>\<open>response.ok\<close>, and what \<open>response.json()\<close> gives: the message of the error it
      throws, or the parsed body\<close>

record stripe_sdk =
  stripe_loaded :: bool
  elements_loaded :: bool
  cardElement_mounted :: bool
  createPaymentMethod :: "billing_details \<Rightarrow> pm_outcome"

datatype checkout_event =
  CreatePaymentMethod billing_details
| Fetch fetch_request
| CheckoutSuccess json_data
| CheckoutError string

definition toUpperCase :: "string \<Rightarrow> js_text" where
  \<comment> \<open>\<open>currency.toUpperCase()\<close>: on a string of ASCII characters the letters \<open>a\<close> to \<open>z\<close>
      become \<open>A\<close> to \<open>Z\<close> and nothing else changes; the case mapping of other characters
      is Unicode's and is left as the operation \<open>UpperCased\<close> on the string\<close>
  "toUpperCase s =
     (if list_all (\<lambda>c. (of_char c :: nat) < 128) s
      then Text (map (\<lambda>c. case map_of (zip ''abcdefghijklmnopqrstuvwxyz''
                                              ''ABCDEFGHIJKLMNOPQRSTUVWXYZ'') c of
                            None \<Rightarrow> c | Some u \<Rightarrow> u) s)
      else UpperCased s)"

definition interpolate :: "string option \<Rightarrow> string" where
  \<comment> \<open>a value inside a template literal: \<open>undefined\<close> is printed as such\<close>
  "interpolate v = (case v of None \<Rightarrow> ''undefined'' | Some s \<Rightarrow> s)"

definition billing :: "checkout_state \<Rightarrow> billing_details" where
  "billing st =
     \<lparr>bd_name = co_name st, bd_email = co_email st,
      bd_phone = (if co_phone st = [] then None else Some (co_phone st)),
      bd_address = \<lparr>line1 = co_address st, city = co_city st, state = co_state st,
                    postal_code = co_zipCode st, country = co_country st\<rparr>\<rparr>"

definition amountInCents :: "checkout_props \<Rightarrow> int" where
  \<comment> \<open>\<open>Math.round(amount * 100)\<close>, under the comment "Convert amount to cents for Stripe":
      the product of two binary64 numbers, rounded to binary64, then to an integer\<close>
  "amountInCents C = Math_round (binary64 (binary64 (co_amount C) * 100))"

definition checkout_request ::
  "checkout_props \<Rightarrow> environment \<Rightarrow> checkout_state \<Rightarrow> string \<Rightarrow> fetch_request" where
  "checkout_request C env st pm_id =
     \<lparr>fr_url = interpolate (VITE_MESHALTO_API_URL env)
               @ interpolate (VITE_MESHALTO_API_URL_STRIPE_PATH env),
      fr_method = ''POST'',
      fr_headers = [(''Content-Type'', ''application/json''),
                    (''X-API-Key'', case VITE_MESHALTO_API_KEY env of None \<Rightarrow> [] | Some k \<Rightarrow> k)],
      fr_body =
        \<lparr>cb_amount = of_int (amountInCents C),
         cb_currency = toUpperCase (co_currency C),
         cb_payment_method = ''card'',
         cb_customer = billing st,
         cb_payment_token = \<lparr>ct_token = pm_id, ct_token_type = ''card''\<rparr>\<rparr>\<rparr>"

definition checkout_handleSubmit ::
  "checkout_props \<Rightarrow> environment \<Rightarrow> stripe_sdk \<Rightarrow> (fetch_request \<Rightarrow> fetch_outcome) \<Rightarrow>
   checkout_state \<Rightarrow> checkout_state \<times> checkout_event list" where
  "checkout_handleSubmit C env sdk fetch st =
     (if \<not> stripe_loaded sdk \<or> \<not> elements_loaded sdk \<or> isProcessing st then (st, [])
      else if \<not> cardElement_mounted sdk then (st\<lparr>isProcessing := False\<rparr>, [])
      else
        (let done = st\<lparr>isProcessing := False\<rparr>; call = CreatePaymentMethod (billing st)
         in case createPaymentMethod sdk (billing st) of
              PmThrows m \<Rightarrow>
                (done, [call, CheckoutError (or_default m ''Network error occurred'')])
            | PmError m \<Rightarrow>
                (done, [call, CheckoutError (or_default m ''Payment method creation failed'')])
            | PmCreated pm_id \<Rightarrow>
                (let req = checkout_request C env st pm_id
                 in case fetch req of
                      FetchThrows m \<Rightarrow>
                        (done, [call, Fetch req,
                                CheckoutError (or_default m ''Network error occurred'')])
                    | FetchResponse ok parsed \<Rightarrow>
                        (case parsed of
                           Inl m \<Rightarrow>
                             (done, [call, Fetch req,
                                     CheckoutError (or_default m ''Network error occurred'')])
                         | Inr result \<Rightarrow>
                             if ok then (done, [call, Fetch req, CheckoutSuccess result])
                             else (done, [call, Fetch req,
                                          CheckoutError
                                            (or_default (js_or (error result) (message result))
                                               ''Payment processing failed'')])))))"

text \<open>
  The callbacks that \<open>MeshaltoPayment\<close> hands to the Stripe form: a success stores the
  result, opens the success modal and calls the caller's \<open>onSuccess\<close>; an error opens the
  error modal with the code \<open>PAYMENT_FAILED\<close> and calls the caller's \<open>onError\<close>.
\<close>

fun stripe_callback :: "payment_state \<times> event list \<Rightarrow> checkout_event \<Rightarrow> payment_state \<times> event list" where
  "stripe_callback (st, evs) (CheckoutSuccess result) =
     (st\<lparr>paymentData := Some result, showSuccessModal := True\<rparr>, evs @ [OnSuccess result])"
| "stripe_callback (st, evs) (CheckoutError m) =
     (st\<lparr>errorData := Some (m, Some ''PAYMENT_FAILED''), showErrorModal := True\<rparr>,
      evs @ [OnError m])"
| "stripe_callback (st, evs) _ = (st, evs)"

definition stripe_submit ::
  "props \<Rightarrow> environment \<Rightarrow> stripe_sdk \<Rightarrow> (fetch_request \<Rightarrow> fetch_outcome) \<Rightarrow>
   checkout_state \<Rightarrow> payment_state \<Rightarrow> payment_state \<times> event list" where
  \<comment> \<open>a submission of the Stripe form as rendered by \<open>MeshaltoPayment\<close>, which passes its
      own \<open>amount\<close> and \<open>currency\<close>\<close>
  "stripe_submit P env sdk fetch cst st =
     foldl stripe_callback (st, [])
       (snd (checkout_handleSubmit \<lparr>co_amount = amount P, co_currency = currency P\<rparr>
               env sdk fetch cst))"

section \<open>The Square and PayPal forms\<close>









section \<open>Submitting the form that is rendered\<close>







section \<open>The fee table\<close>

text \<open>
  Modelled from the spec: the Fee Estimator of section 4.3, which is not among the sources.
  It computes \<open>amount * percentage + fixed\<close> in exact decimal arithmetic, rounded to the
  currency precision (two decimals) half-even. The fee formulas are those of the README's table: Stripe
  2.9% + $0.30, Square 2.6% + $0.10, PayPal 2.89% + $0.49; the first two are providers A
  and B of the spec's scenario.
\<close>

record feeFormula =
  percentage :: rat
  fixed :: rat

definition estimate :: "rat \<Rightarrow> feeFormula \<Rightarrow> rat" where
  \<comment> \<open>Modelled from the spec: \<open>estimate(request, providerProfile)\<close> of section 4.3, on the
      request's amount\<close>
  "estimate a ff = of_int (round_half_even ((a * percentage ff + fixed ff) * 100)) / 100"

fun fee_table :: "gateway \<Rightarrow> feeFormula option" where
  \<comment> \<open>the README's table "Why Meshalto?"\<close>
  "fee_table Stripe = Some \<lparr>percentage = 29 / 1000, fixed = 30 / 100\<rparr>"
| "fee_table Square = Some \<lparr>percentage = 26 / 1000, fixed = 10 / 100\<rparr>"
| "fee_table PayPal = Some \<lparr>percentage = 289 / 10000, fixed = 49 / 100\<rparr>"
| "fee_table Auto = None"

section \<open>The shape of the card-entry fields\<close>

fun split_on_space :: "string \<Rightarrow> string list" where
  \<comment> \<open>the blocks between single spaces, as \<open>split(' ')\<close> gives them\<close>
  "split_on_space [] = [[]]"
| "split_on_space (c # cs) =
     (if c = CHR '' '' then [] # split_on_space cs
      else case split_on_space cs of [] \<Rightarrow> [[c]] | b # bs \<Rightarrow> (c # b) # bs)"

definition digit_or_space :: "char \<Rightarrow> bool" where
  "digit_or_space c = (is_digit c \<or> c = CHR '' '')"

definition digit_block :: "string \<Rightarrow> bool" where
  \<comment> \<open>one to four digits\<close>
  "digit_block b = (b \<noteq> [] \<and> length b \<le> 4 \<and> list_all is_digit b)"

definition card_blocks :: "string \<Rightarrow> bool" where
  \<comment> \<open>only digits, in blocks of at most four, separated by single spaces\<close>
  "card_blocks c = list_all digit_block (split_on_space c)"

definition card_inv :: "string \<Rightarrow> bool" where
  "card_inv c = (length c \<le> 19 \<and> (card_blocks c \<or> length (filter is_digit c) < 4))"

definition cvv_inv :: "string \<Rightarrow> bool" where
  "cvv_inv v = (list_all is_digit v \<and> length v \<le> 4)"

definition expiry_inv :: "string \<Rightarrow> bool" where
  \<comment> \<open>at most one digit, or two digits, a slash and at most two digits\<close>
  "expiry_inv e =
     (length e \<le> 5 \<and>
      ((list_all is_digit e \<and> length e \<le> 1) \<or>
       (length (take 2 e) = 2 \<and> list_all is_digit (take 2 e) \<and> take 1 (drop 2 e) = ''/''
        \<and> list_all is_digit (drop 3 e))))"

definition entry_inv :: "payment_state \<Rightarrow> bool" where
  "entry_inv st = (card_inv (cardNumber st) \<and> cvv_inv (cvv st) \<and> expiry_inv (expiryDate st))"

section \<open>Scenario values\<close>

text \<open>
  A filled form: the inputs the end-to-end tests type (the Stripe test card
  \<open>4242424242424242\<close>, expiry \<open>1234\<close>) into the generic card form of \<open>App\<close>.
\<close>

definition typed_inputs :: "input_event list" where
  "typed_inputs =
     [CardholderNameInput ''John Doe'', CardNumberInput ''4242424242424242'',
      ExpiryDateInput ''1234'', CvvInput ''123'']"

definition filled_state :: payment_state where
  "filled_state = after_inputs (app_props ''key'') typed_inputs"

definition no_data :: json_data where
  "no_data =
     \<lparr>status = None, error_message = None, error = None, message = None, detail = None,
      error_code = None, transaction_id = None, served_by = None\<rparr>"

definition completed_by_stripe :: json_data where
  "completed_by_stripe =
     no_data\<lparr>status := Some ''completed'', transaction_id := Some ''txn_1'',
             served_by := Some ''stripe''\<rparr>"

definition declined :: json_data where
  "declined = no_data\<lparr>status := Some ''failed'', error_message := Some ''Card declined''\<rparr>"

definition succeeding_server :: "http_request \<Rightarrow> axios_outcome" where
  "succeeding_server r = Resolved (Some completed_by_stripe)"

definition unavailable_server :: "http_request \<Rightarrow> axios_outcome" where
  \<comment> \<open>a 503 answer: axios rejects, the response body carries a \<open>detail\<close>\<close>
  "unavailable_server r =
     Rejected \<lparr>err_data = Some (no_data\<lparr>detail := Some ''Service Unavailable''\<rparr>),
               err_message = Some ''Request failed with status code 503''\<rparr>"

definition ready_sdk :: stripe_sdk where
  "ready_sdk =
     \<lparr>stripe_loaded = True, elements_loaded = True, cardElement_mounted = True,
      createPaymentMethod = (\<lambda>b. PmCreated ''pm_1'')\<rparr>"

definition test_env :: environment where
  "test_env =
     \<lparr>VITE_MESHALTO_API_URL = Some ''http://localhost:8002'',
      VITE_MESHALTO_API_URL_STRIPE_PATH = Some ''/process/stripe'',
      VITE_MESHALTO_API_URL_SQUARE_PATH = None,
      VITE_MESHALTO_API_KEY = Some ''key''\<rparr>"

definition billing_form :: checkout_state where
  "billing_form =
     \<lparr>co_name = ''John Doe'', co_email = ''test@example.com'', co_phone = ''1234567890'',
      co_address = ''123 Test St'', co_city = ''Test City'', co_state = ''CA'',
      co_zipCode = ''12345'', co_country = ''US'', isProcessing = False\<rparr>"

definition short_inputs :: "input_event list" where
  \<comment> \<open>a card number with fewer than four digits and a letter\<close>
  "short_inputs =
     [CardholderNameInput ''John Doe'', CardNumberInput ''12a'',
      ExpiryDateInput ''1234'', CvvInput ''123'']"

definition posted_tokens :: "event list \<Rightarrow> string list" where
  "posted_tokens evs = map (\<lambda>r. tok_token (body_payment_token (req_body r))) (posts evs)"

definition declining_server :: "http_request \<Rightarrow> axios_outcome" where
  \<comment> \<open>a 200 answer whose body reports a failed payment\<close>
  "declining_server r = Resolved (Some declined)"

definition declining_fetch :: "fetch_request \<Rightarrow> fetch_outcome" where
  \<comment> \<open>the same answer, as \<open>fetch\<close> delivers it: \<open>response.ok\<close> is true\<close>
  "declining_fetch r = FetchResponse True (Inr declined)"

definition posted_amounts :: "event list \<Rightarrow> rat list" where
  "posted_amounts evs = map (\<lambda>r. body_amount (req_body r)) (posts evs)"

definition blank_card_inputs :: "input_event list" where
  \<comment> \<open>a single space typed as the card number\<close>
  "blank_card_inputs =
     [CardholderNameInput ''John Doe'', CardNumberInput '' '',
      ExpiryDateInput ''1234'', CvvInput ''123'']"

definition negative_props :: props where
  "negative_props = (app_props ''key'')\<lparr>amount := - 1\<rparr>"

definition no_cvv_inputs :: "input_event list" where
  "no_cvv_inputs =
     [CardholderNameInput ''John Doe'', CardNumberInput ''4242424242424242'',
      ExpiryDateInput ''1234'']"





section \<open>Rounding to binary64\<close>

lemma round_half_even_near: "\<bar>of_int (round_half_even y) - y\<bar> \<le> 1 / 2"
proof -
  have "of_int \<lfloor>y\<rfloor> \<le> y" "y < of_int \<lfloor>y\<rfloor> + 1"
    by linarith+
  then show ?thesis
    by (auto simp add: round_half_even_def Let_def)
qed

lemma pow2_pos: "0 < (power_int 2 k :: rat)"
  by (simp add: power_int_def)

lemma pow2_diff: "(power_int 2 (a - b) :: rat) = power_int 2 a / power_int 2 b"
  by (simp add: power_int_diff)

lemma exponent_lower:
  assumes "0 < x"
  shows "power_int 2 (exponent x) \<le> x"
proof -
  obtain p q where pq: "quotient_of x = (p, q)"
    by (cases "quotient_of x")
  then have q: "0 < q" and x: "x = of_int p / of_int q"
    using quotient_of_denom_pos quotient_of_div by auto
  have p: "0 < p"
    using assms q x by (simp add: zero_less_divide_iff)
  let ?d = "bitlen p - bitlen q"
  show ?thesis
  proof (cases "power_int 2 ?d \<le> x")
    case True
    then show ?thesis
      by (simp add: exponent_def pq)
  next
    case False
    have bp: "(2::int) ^ nat (bitlen p - 1) \<le> p"
      using bitlen_bounds [OF p] by simp
    have bq: "q < (2::int) ^ nat (bitlen q)"
      using bitlen_bounds [OF q] by simp
    have p1: "1 \<le> bitlen p"
      using p by (auto simp add: bitlen_alt_def)
    have "(power_int 2 (bitlen p - 1) :: rat) = of_int (2 ^ nat (bitlen p - 1))"
      using p1 by (simp add: power_int_def)
    also have "\<dots> \<le> of_int p"
      using bp by (simp only: of_int_le_iff)
    finally have np: "(power_int 2 (bitlen p - 1) :: rat) \<le> of_int p" .
    have "(of_int q :: rat) \<le> of_int (2 ^ nat (bitlen q))"
      using bq by simp
    also have "\<dots> = power_int 2 (bitlen q)"
      using bitlen_nonneg [of q] by (simp add: power_int_def)
    finally have nq: "(of_int q :: rat) \<le> power_int 2 (bitlen q)" .
    have "(power_int 2 (?d - 1) :: rat) = power_int 2 (bitlen p - 1) / power_int 2 (bitlen q)"
      using pow2_diff [of "bitlen p - 1" "bitlen q"] by (simp add: algebra_simps)
    also have "\<dots> \<le> of_int p / of_int q"
    proof (rule frac_le [OF _ np _ nq])
      show "0 \<le> (of_int p :: rat)" using p by simp
      show "0 < (of_int q :: rat)" using q by simp
    qed
    finally have "(power_int 2 (?d - 1) :: rat) \<le> x"
      by (simp only: x)
    moreover have "exponent x = ?d - 1"
      using False by (simp add: exponent_def pq)
    ultimately show ?thesis
      by simp
  qed
qed

lemma exponent_upper:
  assumes "0 < x"
  shows "x < power_int 2 (exponent x + 1)"
proof -
  obtain p q where pq: "quotient_of x = (p, q)"
    by (cases "quotient_of x")
  then have q: "0 < q" and x: "x = of_int p / of_int q"
    using quotient_of_denom_pos quotient_of_div by auto
  have p: "0 < p"
    using assms q x by (simp add: zero_less_divide_iff)
  let ?d = "bitlen p - bitlen q"
  show ?thesis
  proof (cases "power_int 2 ?d \<le> x")
    case False
    then show ?thesis
      by (simp add: exponent_def pq)
  next
    case True
    have bp: "p < (2::int) ^ nat (bitlen p)"
      using bitlen_bounds [OF p] by simp
    have bq: "(2::int) ^ nat (bitlen q - 1) \<le> q"
      using bitlen_bounds [OF q] by simp
    have q1: "1 \<le> bitlen q"
      using q by (auto simp add: bitlen_alt_def)
    have "(of_int p :: rat) < of_int (2 ^ nat (bitlen p))"
      using bp by (simp only: of_int_less_iff)
    also have "\<dots> = power_int 2 (bitlen p)"
      using bitlen_nonneg [of p] by (simp add: power_int_def)
    finally have np: "(of_int p :: rat) < power_int 2 (bitlen p)" .
    have "(power_int 2 (bitlen q - 1) :: rat) = of_int (2 ^ nat (bitlen q - 1))"
      using q1 by (simp add: power_int_def)
    also have "\<dots> \<le> of_int q"
      using bq by (simp only: of_int_le_iff)
    finally have nq: "(power_int 2 (bitlen q - 1) :: rat) \<le> of_int q" .
    have "of_int p / (of_int q :: rat) < power_int 2 (bitlen p) / power_int 2 (bitlen q - 1)"
    proof (rule frac_less [OF _ np _ nq])
      show "0 \<le> (of_int p :: rat)" using p by simp
      show "0 < (power_int 2 (bitlen q - 1) :: rat)" by (rule pow2_pos)
    qed
    also have "\<dots> = power_int 2 (?d + 1)"
      using pow2_diff [of "bitlen p" "bitlen q - 1"] by (simp add: algebra_simps)
    finally have "x < power_int 2 (?d + 1)"
      by (simp only: x)
    moreover have "exponent x = ?d"
      using True by (simp add: exponent_def pq)
    ultimately show ?thesis
      by simp
  qed
qed

lemma binary64_error:
  assumes "0 < x" and "power_int 2 (- 1022) \<le> x"
  shows "\<bar>binary64 x - x\<bar> \<le> x / 2 ^ 53"
proof -
  let ?e = "max (exponent \<bar>x\<bar>) (- 1022)"
  let ?q = "power_int 2 (?e - 52) :: rat"
  have qpos: "0 < ?q"
    by (rule pow2_pos)
  have ele: "(power_int 2 ?e :: rat) \<le> x"
    using assms exponent_lower [of x] by (simp add: max_def)
  have q52: "?q = power_int 2 ?e / 2 ^ 52"
    using pow2_diff [of ?e 52] by simp
  have b: "binary64 x = of_int (round_half_even (x / ?q)) * ?q"
    using assms(1) by (simp add: binary64_def Let_def)
  have "\<bar>binary64 x - x\<bar> = \<bar>of_int (round_half_even (x / ?q)) - x / ?q\<bar> * ?q"
  proof -
    have "binary64 x - x = (of_int (round_half_even (x / ?q)) - x / ?q) * ?q"
      using qpos by (simp add: b algebra_simps)
    then show ?thesis
      using qpos by (simp add: abs_mult)
  qed
  also have "\<dots> \<le> 1 / 2 * ?q"
    using round_half_even_near [of "x / ?q"] qpos by (intro mult_right_mono) simp_all
  also have "\<dots> = power_int 2 ?e / 2 ^ 53"
    by (simp add: q52)
  also have "\<dots> \<le> x / 2 ^ 53"
    using ele by (simp add: divide_right_mono)
  finally show ?thesis .
qed

section \<open>What the input handlers store\<close>

lemma digit_not_space: "is_digit c \<Longrightarrow> \<not> is_space c"
  by (auto simp add: is_digit_def is_space_def)

lemma digit_not_blank: "is_digit c \<Longrightarrow> c \<noteq> CHR '' ''"
  by (auto simp add: is_digit_def)

lemma blank_is_space: "is_space (CHR '' '')"
  by (simp add: is_space_def)

lemma strip_digits_filter: "strip_digits v = filter is_digit v"
proof -
  have "(\<lambda>c. \<not> is_space c \<and> is_digit c) = is_digit"
    using digit_not_space by auto
  then show ?thesis
    by (simp add: strip_digits_def)
qed

lemma first_match_digits:
  "list_all is_digit v \<Longrightarrow> first_match v = (if 4 \<le> length v then take 16 v else [])"
proof (induction v)
  case Nil
  then show ?case by simp
next
  case (Cons c cs)
  then have run: "takeWhile is_digit (c # cs) = c # cs"
    by (simp add: list_all_iff)
  have "first_match (c # cs) = (if 4 \<le> length (c # cs) then take 16 (c # cs) else first_match cs)"
    unfolding first_match.simps run Let_def ..
  with Cons show ?case
    by (auto simp add: Let_def)
qed

lemma substring_from: 
  assumes "a \<le> b"
  shows "substring s a b = take (b - a) (drop a s)"
proof (cases "a < length s")
  case True
  have mn: "min a (length s) = a" "min a (min b (length s)) = a" "max a (min b (length s)) = min b (length s)"
    using True assms by simp_all
  have "take (min b (length s) - a) (drop a s) = take (b - a) (drop a s)"
  proof (cases "b \<le> length s")
    case True
    then show ?thesis by (simp add: min_absorb1)
  next
    case False
    then show ?thesis by (simp add: min_absorb2)
  qed
  then show ?thesis
    by (simp add: substring_def Let_def mn)
next
  case False
  then have "min a (length s) = length s" "min b (length s) = length s"
    using assms by simp_all
  then show ?thesis
    using False by (simp add: substring_def Let_def)
qed

lemma substring_step: "i < length s \<Longrightarrow> substring s i (i + 4) = take 4 (drop i s)"
  by (simp add: substring_from)

lemma substring_prefix: "substring s 0 n = take n s"
  by (simp add: substring_from)

lemma quarter_step:
  assumes "0 < (n::nat)"
  shows "Suc ((n - 4 + 3) div 4) = (n + 3) div 4"
proof (cases "4 \<le> n")
  case True
  then obtain k where k: "n = k + 4"
    using le_Suc_ex add.commute by metis
  have "(k + 4 + 3) div 4 = Suc ((k + 3) div 4)"
    by simp
  then show ?thesis
    by (simp add: k)
next
  case False
  then have "n - 4 = 0"
    by simp
  moreover have "(n + 3) div 4 = 1"
    using assms False by (intro div_nat_eqI) simp_all
  ultimately show ?thesis
    by simp
qed

lemma push_parts_length:
  "length (push_parts m i parts) = length parts + (length m - i + 3) div 4"
proof (induction m i parts rule: push_parts.induct)
  case (1 match i parts)
  show ?case
  proof (cases "i < length match")
    case True
    then have pos: "0 < length match - i"
      by simp
    have sub: "length match - (i + 4) = length match - i - 4"
      by simp
    have "length (push_parts match i parts)
        = length (push_parts match (i + 4) (parts @ [substring match i (i + 4)]))"
      using True by (simp add: push_parts.simps [of match i parts])
    also have "\<dots> = length (parts @ [substring match i (i + 4)]) + (length match - (i + 4) + 3) div 4"
      using "1.IH" True by blast
    also have "\<dots> = length parts + Suc ((length match - i - 4 + 3) div 4)"
      by (simp only: sub length_append list.size add_Suc_right add_Suc add_0_right add_0)
    also have "\<dots> = length parts + (length match - i + 3) div 4"
      by (simp only: quarter_step [OF pos])
    finally show ?thesis .
  next
    case False
    then show ?thesis
      by (simp add: push_parts.simps [of match i parts])
  qed
qed

lemma push_parts_blocks:
  "list_all is_digit m \<Longrightarrow> list_all digit_block parts \<Longrightarrow>
   list_all digit_block (push_parts m i parts)"
proof (induction m i parts rule: push_parts.induct)
  case (1 match i parts)
  show ?case
  proof (cases "i < length match")
    case True
    have "set (take 4 (drop i match)) \<subseteq> set match"
      by (meson set_drop_subset set_take_subset subset_trans)
    then have dg: "list_all is_digit (take 4 (drop i match))"
      using "1.prems"(1) by (auto simp add: list_all_iff)
    have "digit_block (substring match i (i + 4))"
      using True dg by (simp add: substring_step digit_block_def)
    then have "list_all digit_block (parts @ [substring match i (i + 4)])"
      using "1.prems"(2) by simp
    then have "list_all digit_block (push_parts match (i + 4) (parts @ [substring match i (i + 4)]))"
      using "1.IH" True "1.prems"(1) by blast
    then show ?thesis
      using True by (simp add: push_parts.simps [of match i parts])
  next
    case False
    then show ?thesis
      using "1.prems"(2) by (simp add: push_parts.simps [of match i parts])
  qed
qed

lemma push_parts_concat:
  "concat (push_parts m i parts) = concat parts @ drop i m"
proof (induction m i parts rule: push_parts.induct)
  case (1 match i parts)
  show ?case
  proof (cases "i < length match")
    case True
    have td: "take 4 (drop i match) @ drop (i + 4) match = drop i match"
      using append_take_drop_id [of 4 "drop i match"] by (simp add: add.commute)
    have "concat (push_parts match i parts)
        = concat (push_parts match (i + 4) (parts @ [substring match i (i + 4)]))"
      using True by (simp add: push_parts.simps [of match i parts])
    also have "\<dots> = concat (parts @ [substring match i (i + 4)]) @ drop (i + 4) match"
      using "1.IH" True by blast
    also have "\<dots> = concat parts @ (take 4 (drop i match) @ drop (i + 4) match)"
      using True by (simp add: substring_step)
    also have "\<dots> = concat parts @ drop i match"
      by (simp only: td)
    finally show ?thesis .
  next
    case False
    then show ?thesis
      by (simp add: push_parts.simps [of match i parts])
  qed
qed

lemma join_space_length:
  "ps \<noteq> [] \<Longrightarrow> length (join_space ps) + 1 = length (concat ps) + length ps"
  by (induction ps rule: join_space.induct) auto

lemma split_on_space_block:
  "CHR '' '' \<notin> set b \<Longrightarrow> split_on_space b = [b]"
  by (induction b) auto

lemma split_on_space_append:
  "CHR '' '' \<notin> set b \<Longrightarrow> split_on_space (b @ CHR '' '' # rest) = b # split_on_space rest"
  by (induction b) auto

lemma split_join_space:
  "ps \<noteq> [] \<Longrightarrow> list_all (\<lambda>b. CHR '' '' \<notin> set b) ps \<Longrightarrow> split_on_space (join_space ps) = ps"
proof (induction ps rule: join_space.induct)
  case 1
  then show ?case by simp
next
  case (2 p)
  then show ?case by (simp add: split_on_space_block)
next
  case (3 p q ps)
  then show ?case by (simp add: split_on_space_append)
qed

lemma digit_block_no_blank: "digit_block b \<Longrightarrow> CHR '' '' \<notin> set b"
  using digit_not_blank by (auto simp add: digit_block_def list_all_iff)

lemma card_blocks_join:
  assumes "ps \<noteq> []" and "list_all digit_block ps"
  shows "card_blocks (join_space ps)"
proof -
  have "list_all (\<lambda>b. CHR '' '' \<notin> set b) ps"
    using assms(2) digit_block_no_blank by (auto simp add: list_all_iff)
  then have "split_on_space (join_space ps) = ps"
    using assms(1) by (rule split_join_space [rotated])
  then show ?thesis
    using assms(2) by (simp add: card_blocks_def)
qed

lemma filter_join_space:
  "list_all digit_block ps \<Longrightarrow> filter (\<lambda>c. \<not> is_space c) (join_space ps) = concat ps"
proof (induction ps rule: join_space.induct)
  case 1
  then show ?case by simp
next
  case (2 p)
  then have "\<forall>c\<in>set p. \<not> is_space c"
    using digit_not_space by (auto simp add: digit_block_def list_all_iff)
  then show ?case by simp
next
  case (3 p q ps)
  then have "\<forall>c\<in>set p. \<not> is_space c"
    using digit_not_space by (auto simp add: digit_block_def list_all_iff)
  then have "filter (\<lambda>c. \<not> is_space c) p = p"
    by simp
  with 3 show ?case
    by (simp add: blank_is_space)
qed


lemma push_parts_nonempty: "(push_parts m 0 [] \<noteq> []) = (m \<noteq> [])"
proof -
  have "length (push_parts m 0 []) = (length m + 3) div 4"
    by (simp add: push_parts_length)
  moreover have "((length m + 3) div 4 = 0) = (length m = 0)"
    by (simp add: div_eq_0_iff)
  ultimately show ?thesis
    by (metis length_0_conv)
qed

lemma formatCardNumber_digits:
  assumes "4 \<le> length (filter is_digit v)"
  shows "formatCardNumber v = join_space (push_parts (take 16 (filter is_digit v)) 0 [])"
proof -
  have fm: "first_match (filter is_digit v) = take 16 (filter is_digit v)"
    using assms by (simp add: first_match_digits list_all_iff)
  have "take 16 (filter is_digit v) \<noteq> []"
    using assms by auto
  then have "push_parts (take 16 (filter is_digit v)) 0 [] \<noteq> []"
    by (simp add: push_parts_nonempty)
  then show ?thesis
    by (simp add: formatCardNumber_def strip_digits_filter fm Let_def)
qed

lemma formatCardNumber_raw:
  assumes "length (filter is_digit v) < 4"
  shows "formatCardNumber v = v"
proof -
  have fm: "first_match (filter is_digit v) = []"
    using assms by (simp add: first_match_digits list_all_iff)
  have "push_parts [] 0 [] = []"
    by (simp add: push_parts.simps [of "[]" 0 "[]"])
  then show ?thesis
    by (simp add: formatCardNumber_def strip_digits_filter fm Let_def)
qed

lemma grouped_digits:
  assumes "list_all is_digit m" and "m \<noteq> []" and "length m \<le> 16"
  shows "card_blocks (join_space (push_parts m 0 []))"
    and "length (join_space (push_parts m 0 [])) \<le> 19"
    and "filter (\<lambda>c. \<not> is_space c) (join_space (push_parts m 0 [])) = m"
proof -
  let ?ps = "push_parts m 0 []"
  have ne: "?ps \<noteq> []"
    using assms(2) by (simp add: push_parts_nonempty)
  have bl: "list_all digit_block ?ps"
    using assms(1) by (simp add: push_parts_blocks)
  show "card_blocks (join_space ?ps)"
    using ne bl by (rule card_blocks_join)
  have cc: "concat ?ps = m"
    by (simp add: push_parts_concat)
  have "length ?ps = (length m + 3) div 4"
    by (simp add: push_parts_length)
  then have "length ?ps \<le> 4"
    using assms(3) by simp
  moreover have "length (join_space ?ps) + 1 = length m + length ?ps"
    using join_space_length [OF ne] by (simp add: cc)
  ultimately show "length (join_space ?ps) \<le> 19"
    using assms(3) by simp
  show "filter (\<lambda>c. \<not> is_space c) (join_space ?ps) = m"
    using bl by (simp add: filter_join_space cc)
qed

lemma card_inv_format:
  assumes "length (formatCardNumber v) \<le> 19"
  shows "card_inv (formatCardNumber v)"
proof (cases "4 \<le> length (filter is_digit v)")
  case True
  let ?m = "take 16 (filter is_digit v)"
  have "list_all is_digit ?m"
    by (auto simp add: list_all_iff dest: in_set_takeD)
  moreover have "?m \<noteq> []"
    using True by auto
  moreover have "length ?m \<le> 16"
    by simp
  ultimately have "card_blocks (join_space (push_parts ?m 0 []))"
    by (rule grouped_digits(1))
  then show ?thesis
    using assms by (simp add: card_inv_def formatCardNumber_digits [OF True])
next
  case False
  then have "formatCardNumber v = v"
    by (simp add: formatCardNumber_raw)
  then show ?thesis
    using assms False by (simp add: card_inv_def)
qed

lemma expiry_inv_format: "expiry_inv (formatExpiryDate v)"
proof (cases "2 \<le> length (filter is_digit v)")
  case True
  let ?d = "filter is_digit v"
  have fe: "formatExpiryDate v = take 2 ?d @ ''/'' @ take 2 (drop 2 ?d)"
    using True by (simp add: formatExpiryDate_def strip_digits_filter substring_from Let_def)
  have l2: "length (take 2 ?d) = 2"
    using True by simp
  have d1: "list_all is_digit (take 2 ?d)"
    by (auto simp add: list_all_iff dest: in_set_takeD)
  have d2: "list_all is_digit (take 2 (drop 2 ?d))"
    by (auto simp add: list_all_iff dest!: in_set_takeD in_set_dropD)
  show ?thesis
    using l2 d1 d2 by (simp add: expiry_inv_def fe)
next
  case False
  then have "formatExpiryDate v = filter is_digit v"
    by (simp add: formatExpiryDate_def strip_digits_filter)
  then show ?thesis
    using False by (simp add: expiry_inv_def list_all_iff)
qed

lemma entry_inv_step: "entry_inv st \<Longrightarrow> entry_inv (handle_input P st e)"
proof (cases e)
  case (CardNumberInput v)
  assume "entry_inv st"
  then show ?thesis
    using card_inv_format [of v]
    by (simp add: CardNumberInput entry_inv_def handleCardNumberChange_def Let_def)
next
  case (ExpiryDateInput v)
  assume "entry_inv st"
  then show ?thesis
    using expiry_inv_format [of v]
    by (simp add: ExpiryDateInput entry_inv_def handleExpiryDateChange_def Let_def)
next
  case (CvvInput v)
  assume "entry_inv st"
  then show ?thesis
    by (simp add: CvvInput entry_inv_def handleCvvChange_def Let_def cvv_inv_def list_all_iff)
next
  case (CardholderNameInput v)
  assume "entry_inv st"
  then show ?thesis
    by (simp add: CardholderNameInput entry_inv_def)
next
  case (GatewaySelect g)
  assume "entry_inv st"
  then show ?thesis
    by (simp add: GatewaySelect entry_inv_def)
qed

lemma entry_inv_foldl: "entry_inv st \<Longrightarrow> entry_inv (foldl (handle_input P) st evs)"
  by (induction evs arbitrary: st) (simp_all add: entry_inv_step)

lemma entry_inv_initial: "entry_inv (initial_state g)"
  by (simp add: entry_inv_def initial_state_def card_inv_def cvv_inv_def expiry_inv_def)

section \<open>What a submission of the generic card form does\<close>

lemma fields_missing_pending [simp]:
  "fields_missing (st\<lparr>loading := a, showLoadingModal := b, error_text := c\<rparr>) = fields_missing st"
  by (simp add: fields_missing_def)

lemma build_request_pending [simp]:
  "build_request P (st\<lparr>loading := a, showLoadingModal := b, error_text := c\<rparr>) = build_request P st"
  by (simp add: build_request_def)

lemma errorMessage_new_Error:
  "errorMessage (new_Error m) = (if m = [] then ''Payment failed'' else m)"
  by (simp add: errorMessage_def new_Error_def js_or_def truthy_def or_default_def)

lemma handleSubmit_events:
  "snd (handleSubmit P post st) =
     (if fields_missing st then [OnError ''Please fill in all fields'']
      else case post (build_request P st) of
             Rejected err \<Rightarrow> [Post (build_request P st), OnError (errorMessage err)]
           | Resolved d \<Rightarrow>
               if is_completed d then [Post (build_request P st), OnSuccess (the d)]
               else [Post (build_request P st),
                     OnError (errorMessage (new_Error (or_default
                        (case d of None \<Rightarrow> None | Some r \<Rightarrow> error_message r) ''Payment failed'')))])"
  by (simp add: handleSubmit_def Let_def catch_block_def errorMessage_new_Error
      split: axios_outcome.splits prod.splits)

lemma posts_handleSubmit:
  "posts (snd (handleSubmit P post st)) = (if fields_missing st then [] else [build_request P st])"
  by (simp add: handleSubmit_events posts_def split: axios_outcome.splits)

lemma handleSubmit_keeps_inputs:
  "cardNumber (fst (handleSubmit P post st)) = cardNumber st
   \<and> expiryDate (fst (handleSubmit P post st)) = expiryDate st
   \<and> cvv (fst (handleSubmit P post st)) = cvv st
   \<and> cardholderName (fst (handleSubmit P post st)) = cardholderName st
   \<and> selectedGateway (fst (handleSubmit P post st)) = selectedGateway st"
  by (simp add: handleSubmit_def Let_def catch_block_def
      split: axios_outcome.splits prod.splits)

lemma build_request_after_submit:
  "build_request P (fst (handleSubmit P post st)) = build_request P st"
  using handleSubmit_keeps_inputs [of P post st] by (simp add: build_request_def)

lemma fields_missing_after_submit:
  "fields_missing (fst (handleSubmit P post st)) = fields_missing st"
  using handleSubmit_keeps_inputs [of P post st] by (simp add: fields_missing_def)

lemma filled_state_fields:
  "cardNumber filled_state = ''4242 4242 4242 4242'' \<and> expiryDate filled_state = ''12/34''
   \<and> cvv filled_state = ''123'' \<and> cardholderName filled_state = ''John Doe''
   \<and> selectedGateway filled_state = Auto"
  by code_simp

section \<open>Validation failure reaches no provider\<close>

text \<open>
  C4, as stated, fails: not every invalid request is stopped before a provider is
  contacted. The form only tests that its four fields are not empty, so a card number
  that is a single space, with an amount of -1, passes: the request is sent, with an
  empty token and the amount -1.
\<close>

theorem blank_card_is_posted_counterexample:
  "cardNumber (after_inputs negative_props blank_card_inputs) = '' ''
   \<and> posted_tokens (snd (handleSubmit negative_props succeeding_server
                           (after_inputs negative_props blank_card_inputs))) = [[]]
   \<and> posted_amounts (snd (handleSubmit negative_props succeeding_server
                            (after_inputs negative_props blank_card_inputs))) = [- 1]"
proof -
  have f: "cardNumber (after_inputs negative_props blank_card_inputs) = '' ''
    \<and> expiryDate (after_inputs negative_props blank_card_inputs) = ''12/34''
    \<and> cvv (after_inputs negative_props blank_card_inputs) = ''123''
    \<and> cardholderName (after_inputs negative_props blank_card_inputs) = ''John Doe''"
    by code_simp
  then have nm: "\<not> fields_missing (after_inputs negative_props blank_card_inputs)"
    by (simp add: fields_missing_def)
  have tk: "card_token '' '' = []"
    by code_simp
  have am: "amount negative_props = - 1"
    by (simp add: negative_props_def)
  show ?thesis
    using nm f tk am
    by (simp add: posted_tokens_def posted_amounts_def posts_handleSubmit build_request_def)
qed

text \<open>
  C4, amended. A submission in which the card number, the expiry date, the CVV or the
  cardholder name is the empty string ends in a failure reported through \<open>onError\<close>
  before any provider is contacted: whatever the server would answer, no request is sent,
  the error modal is shown and the form is no longer loading. That test is the only
  validation: every other submission sends its one request.
\<close>

theorem empty_field_contacts_no_provider:
  "(cardNumber st = [] \<or> expiryDate st = [] \<or> cvv st = [] \<or> cardholderName st = [] \<longrightarrow>
      posts (snd (handleSubmit P post st)) = []
      \<and> snd (handleSubmit P post st) = [OnError ''Please fill in all fields'']
      \<and> showErrorModal (fst (handleSubmit P post st))
      \<and> \<not> loading (fst (handleSubmit P post st)))
   \<and> (\<not> (cardNumber st = [] \<or> expiryDate st = [] \<or> cvv st = [] \<or> cardholderName st = []) \<longrightarrow>
        posts (snd (handleSubmit P post st)) = [build_request P st])"
proof (cases "fields_missing st")
  case True
  have fs: "handleSubmit P post st =
      catch_block (new_Error ''Please fill in all fields'')
        (st\<lparr>loading := True, showLoadingModal := True, error_text := None\<rparr>)"
    using True by (simp add: handleSubmit_def)
  have "showErrorModal (fst (handleSubmit P post st)) \<and> \<not> loading (fst (handleSubmit P post st))"
    by (simp add: fs catch_block_def)
  moreover have "posts (snd (handleSubmit P post st)) = []"
    using True by (simp add: posts_handleSubmit)
  moreover have "snd (handleSubmit P post st) = [OnError ''Please fill in all fields'']"
    using True by (simp add: handleSubmit_events)
  ultimately show ?thesis
    using True by (simp add: fields_missing_def)
next
  case False
  then have "posts (snd (handleSubmit P post st)) = [build_request P st]"
    by (simp add: posts_handleSubmit)
  then show ?thesis
    using False by (simp add: fields_missing_def)
qed

theorem empty_field_contacts_no_provider_witness:
  "cvv (after_inputs (app_props ''key'') no_cvv_inputs) = []
   \<and> posts (snd (handleSubmit (app_props ''key'') succeeding_server
                    (after_inputs (app_props ''key'') no_cvv_inputs))) = []
   \<and> snd (handleSubmit (app_props ''key'') succeeding_server
             (after_inputs (app_props ''key'') no_cvv_inputs))
       = [OnError ''Please fill in all fields'']
   \<and> \<not> (cardNumber filled_state = [] \<or> expiryDate filled_state = [] \<or> cvv filled_state = []
          \<or> cardholderName filled_state = [])
   \<and> posts (snd (handleSubmit (app_props ''key'') succeeding_server filled_state))
       = [build_request (app_props ''key'') filled_state]"
proof -
  have e: "cvv (after_inputs (app_props ''key'') no_cvv_inputs) = []"
    by code_simp
  show ?thesis
    using e filled_state_fields
      empty_field_contacts_no_provider
        [of "after_inputs (app_props ''key'') no_cvv_inputs" "app_props ''key''" succeeding_server]
      empty_field_contacts_no_provider [of filled_state "app_props ''key''" succeeding_server]
    by (simp add: posts_def)
qed

section \<open>Automatic gateway selection\<close>

text \<open>
  C1. A request submitted with the gateway selection \<open>auto\<close> should reach the provider
  with the lowest estimated fee. For the 4.39 USD payment of \<open>App\<close>, Square (2.6% + $0.10)
  is cheaper than Stripe (2.9% + $0.30), yet whatever the server answers the only request
  of the submission goes to the \<open>/process/stripe\<close> endpoint: \<open>handleSubmit\<close> replaces
  \<open>auto\<close> by \<open>stripe\<close> without looking at any fee.
\<close>

theorem auto_submission_goes_to_stripe:
  "estimate (amount (app_props ''key'')) (the (fee_table Square))
     < estimate (amount (app_props ''key'')) (the (fee_table Stripe))
   \<and> selectedGateway filled_state = Auto
   \<and> map req_url (posts (snd (handleSubmit (app_props ''key'') post filled_state)))
       = [''http://localhost:8002/process/stripe'']"
proof -
  have fee: "estimate (amount (app_props ''key'')) (the (fee_table Square))
     < estimate (amount (app_props ''key'')) (the (fee_table Stripe))"
    by code_simp
  have nm: "\<not> fields_missing filled_state"
    using filled_state_fields by (simp add: fields_missing_def)
  have url: "req_url (build_request (app_props ''key'') filled_state)
      = ''http://localhost:8002/process/stripe''"
    using filled_state_fields by (simp add: build_request_def app_props_def gatewayEndpoint_def)
  show ?thesis
    using fee nm url filled_state_fields by (simp add: posts_handleSubmit)
qed

section \<open>Submitting twice\<close>

text \<open>
  C2, as stated, fails: a second submission with the same form content is not answered
  from a record of the first one. With a server that succeeds both times, the second call
  of \<open>handleSubmit\<close> sends its own request.
\<close>

theorem second_submission_posts_again_counterexample:
  "posts (snd (snd (submit_twice (app_props ''key'') succeeding_server succeeding_server
                      filled_state)))
     = [build_request (app_props ''key'') filled_state]"
proof -
  have nm: "\<not> fields_missing filled_state"
    using filled_state_fields by (simp add: fields_missing_def)
  show ?thesis
    using nm
    by (simp add: submit_twice_def split_beta posts_handleSubmit
        fields_missing_after_submit build_request_after_submit)
qed

text \<open>
  C2, amended. Submitting the generic card form twice with the same filled fields sends
  the same request twice, one request per call (the body has no idempotency key and
  nothing is replayed); the events of the second call equal those of the first whenever
  the server gives the same answer to both requests.
\<close>

theorem resubmission_posts_again:
  assumes "\<not> fields_missing st"
  shows "posts (fst (snd (submit_twice P post1 post2 st))) = [build_request P st]
       \<and> posts (snd (snd (submit_twice P post1 post2 st))) = [build_request P st]
       \<and> (post1 (build_request P st) = post2 (build_request P st) \<longrightarrow>
            snd (snd (submit_twice P post1 post2 st)) = fst (snd (submit_twice P post1 post2 st)))"
proof -
  let ?st1 = "fst (handleSubmit P post1 st)"
  have tw: "submit_twice P post1 post2 st =
      (fst (handleSubmit P post2 ?st1), snd (handleSubmit P post1 st),
       snd (handleSubmit P post2 ?st1))"
    by (simp add: submit_twice_def split_beta)
  have p1: "posts (snd (handleSubmit P post1 st)) = [build_request P st]"
    using assms by (simp add: posts_handleSubmit)
  have p2: "posts (snd (handleSubmit P post2 ?st1)) = [build_request P st]"
    using assms
    by (simp add: posts_handleSubmit fields_missing_after_submit build_request_after_submit)
  have same: "post1 (build_request P st) = post2 (build_request P st) \<Longrightarrow>
      snd (handleSubmit P post2 ?st1) = snd (handleSubmit P post1 st)"
    by (simp add: handleSubmit_events fields_missing_after_submit build_request_after_submit
        split: axios_outcome.splits)
  show ?thesis
    using p1 p2 same by (simp add: tw)
qed

theorem resubmission_posts_again_witness:
  "\<not> fields_missing filled_state
   \<and> posts (fst (snd (submit_twice (app_props ''key'') succeeding_server succeeding_server
                        filled_state)))
       = [build_request (app_props ''key'') filled_state]
   \<and> posts (snd (snd (submit_twice (app_props ''key'') succeeding_server succeeding_server
                        filled_state)))
       = [build_request (app_props ''key'') filled_state]
   \<and> snd (snd (submit_twice (app_props ''key'') succeeding_server succeeding_server
                 filled_state))
       = fst (snd (submit_twice (app_props ''key'') succeeding_server succeeding_server
                     filled_state))"
proof -
  have nm: "\<not> fields_missing filled_state"
    using filled_state_fields by (simp add: fields_missing_def)
  show ?thesis
    using nm
      resubmission_posts_again [of filled_state "app_props ''key''" succeeding_server
        succeeding_server]
    by simp
qed

section \<open>A failed request\<close>

text \<open>
  C3, as stated, fails: when the request to the first provider fails with a retryable
  error (here a 503 answer of the Stripe endpoint), no second provider is attempted. The
  submission ends with the one request and a call of \<open>onError\<close>.
\<close>

theorem failed_post_no_second_provider_counterexample:
  "snd (handleSubmit (app_props ''key'') unavailable_server filled_state)
     = [Post (build_request (app_props ''key'') filled_state), OnError ''Service Unavailable'']
   \<and> req_url (build_request (app_props ''key'') filled_state)
       = ''http://localhost:8002/process/stripe''"
proof -
  have nm: "\<not> fields_missing filled_state"
    using filled_state_fields by (simp add: fields_missing_def)
  have url: "req_url (build_request (app_props ''key'') filled_state)
      = ''http://localhost:8002/process/stripe''"
    using filled_state_fields by (simp add: build_request_def app_props_def gatewayEndpoint_def)
  have msg: "errorMessage \<lparr>err_data = Some (no_data\<lparr>detail := Some ''Service Unavailable''\<rparr>),
               err_message = Some ''Request failed with status code 503''\<rparr> = ''Service Unavailable''"
    by (simp add: errorMessage_def js_or_def truthy_def or_default_def no_data_def)
  show ?thesis
    using nm url msg by (simp add: handleSubmit_events unavailable_server_def)
qed

text \<open>
  C3, amended. When the request of a submission is rejected, for whatever reason,
  \<open>handleSubmit\<close> attempts no other provider: the submission consists of that single
  request followed by \<open>onError\<close> with the error's message, and the form content is left
  as it was, so that a submission repeated by the user sends an unchanged payload
  (amount, currency, customer and token).
\<close>

theorem failed_post_is_not_retried:
  assumes "\<not> fields_missing st" and "post (build_request P st) = Rejected err"
  shows "snd (handleSubmit P post st) = [Post (build_request P st), OnError (errorMessage err)]
       \<and> posts (snd (handleSubmit P post st)) = [build_request P st]
       \<and> build_request P (fst (handleSubmit P post st)) = build_request P st"
proof -
  have "snd (handleSubmit P post st) = [Post (build_request P st), OnError (errorMessage err)]"
    using assms by (simp add: handleSubmit_events)
  moreover have "posts (snd (handleSubmit P post st)) = [build_request P st]"
    using assms by (simp add: posts_handleSubmit)
  ultimately show ?thesis
    by (simp add: build_request_after_submit)
qed

theorem failed_post_is_not_retried_witness:
  "\<not> fields_missing filled_state
   \<and> posts (snd (handleSubmit (app_props ''key'') unavailable_server filled_state))
       = [build_request (app_props ''key'') filled_state]"
proof -
  have nm: "\<not> fields_missing filled_state"
    using filled_state_fields by (simp add: fields_missing_def)
  have rej: "unavailable_server (build_request (app_props ''key'') filled_state)
      = Rejected \<lparr>err_data = Some (no_data\<lparr>detail := Some ''Service Unavailable''\<rparr>),
               err_message = Some ''Request failed with status code 503''\<rparr>"
    by (simp add: unavailable_server_def)
  show ?thesis
    using nm rej
      failed_post_is_not_retried [of filled_state unavailable_server "app_props ''key''"]
    by (simp add: posts_def)
qed

section \<open>An explicitly chosen gateway\<close>



section \<open>The amount sent to the Stripe endpoint\<close>

text \<open>
  C6. The amount sent to a provider should be in that provider's unit on every submission
  path. For the 4.39 USD payment, the Stripe checkout form converts the amount to cents
  and sends 439, while the generic card form, which on \<open>auto\<close> posts to the Stripe
  endpoint as well, sends the unconverted 4.39.
\<close>

theorem amount_unit_differs_between_forms:
  "req_url (build_request (app_props ''key'') filled_state) = ''http://localhost:8002/process/stripe''
   \<and> body_amount (req_body (build_request (app_props ''key'') filled_state)) = 439 / 100
   \<and> fr_url (checkout_request \<lparr>co_amount = 439 / 100, co_currency = ''USD''\<rparr> test_env
               billing_form ''pm_1'') = ''http://localhost:8002/process/stripe''
   \<and> cb_amount (fr_body (checkout_request \<lparr>co_amount = 439 / 100, co_currency = ''USD''\<rparr>
                            test_env billing_form ''pm_1'')) = 439"
proof -
  have url: "req_url (build_request (app_props ''key'') filled_state)
      = ''http://localhost:8002/process/stripe''"
    using filled_state_fields by (simp add: build_request_def app_props_def gatewayEndpoint_def)
  have amt: "body_amount (req_body (build_request (app_props ''key'') filled_state)) = 439 / 100"
    by (simp add: build_request_def app_props_def)
  have cents: "amountInCents \<lparr>co_amount = 439 / 100, co_currency = ''USD''\<rparr> = 439"
    by code_simp
  have furl: "fr_url (checkout_request \<lparr>co_amount = 439 / 100, co_currency = ''USD''\<rparr> test_env
               billing_form ''pm_1'') = ''http://localhost:8002/process/stripe''"
    by (simp add: checkout_request_def test_env_def interpolate_def)
  have camt: "cb_amount (fr_body (checkout_request \<lparr>co_amount = 439 / 100, co_currency = ''USD''\<rparr>
                            test_env billing_form ''pm_1'')) = 439"
    using cents by (simp add: checkout_request_def)
  show ?thesis
    using url amt furl camt by simp
qed

section \<open>When success is reported\<close>

lemma generic_form_success_iff:
  "(\<exists>d. OnSuccess d \<in> set (snd (handleSubmit P post st)))
   \<longleftrightarrow> (\<not> fields_missing st \<and>
        (\<exists>r. post (build_request P st) = Resolved (Some r) \<and> status r = Some ''completed''))"
  by (auto simp add: handleSubmit_events is_completed_def split: axios_outcome.splits option.splits)

text \<open>
  C7. Success should be reported only for a response whose status is \<open>completed\<close>. The
  generic card form does so (lemma \<open>generic_form_success_iff\<close>), but the Stripe checkout
  form looks at \<open>response.ok\<close> alone: for a 2xx answer whose body has the status
  \<open>failed\<close>, the caller's \<open>onSuccess\<close> is invoked, where the generic form reports the
  same body through \<open>onError\<close>.
\<close>

theorem stripe_form_reports_success_without_completed:
  "status declined = Some ''failed''
   \<and> snd (stripe_submit (app_props ''key'') test_env ready_sdk
            declining_fetch billing_form
            (sync_gateway Stripe filled_state))
       = [OnSuccess declined]
   \<and> snd (handleSubmit (app_props ''key'') declining_server filled_state)
       = [Post (build_request (app_props ''key'') filled_state), OnError ''Card declined'']"
proof -
  have st: "status declined = Some ''failed''"
    by (simp add: declined_def no_data_def)
  have co: "snd (checkout_handleSubmit \<lparr>co_amount = amount (app_props ''key''),
                  co_currency = currency (app_props ''key'')\<rparr> test_env ready_sdk
                  declining_fetch billing_form)
      = [CreatePaymentMethod (billing billing_form),
         Fetch (checkout_request \<lparr>co_amount = amount (app_props ''key''),
                  co_currency = currency (app_props ''key'')\<rparr> test_env billing_form ''pm_1''),
         CheckoutSuccess declined]"
    by (simp add: checkout_handleSubmit_def ready_sdk_def billing_form_def declining_fetch_def
        Let_def)
  have s1: "snd (stripe_submit (app_props ''key'') test_env ready_sdk
            declining_fetch billing_form
            (sync_gateway Stripe filled_state)) = [OnSuccess declined]"
    by (simp add: stripe_submit_def co)
  have nm: "\<not> fields_missing filled_state"
    using filled_state_fields by (simp add: fields_missing_def)
  have s2: "snd (handleSubmit (app_props ''key'') declining_server filled_state)
       = [Post (build_request (app_props ''key'') filled_state), OnError ''Card declined'']"
    using nm
    by (simp add: handleSubmit_events is_completed_def declined_def no_data_def
        declining_server_def errorMessage_new_Error or_default_def)
  show ?thesis
    using st s1 s2 by simp
qed

section \<open>The body sent by the generic card form\<close>

text \<open>
  C9, as stated, fails in its last part: the token is not always the first 16 digits of
  the card number entered. An entry with fewer than four digits is stored as typed, so
  for the entry \<open>12a\<close> the token sent is \<open>12a\<close>, while its digits are \<open>12\<close>.
\<close>

theorem token_not_digits_counterexample:
  "posted_tokens (snd (handleSubmit (app_props ''key'') succeeding_server
                         (after_inputs (app_props ''key'') short_inputs)))
     = [''12a'']
   \<and> take 16 (strip_digits ''12a'') = ''12''"
proof -
  have f: "cardNumber (after_inputs (app_props ''key'') short_inputs) = ''12a''
    \<and> expiryDate (after_inputs (app_props ''key'') short_inputs) = ''12/34''
    \<and> cvv (after_inputs (app_props ''key'') short_inputs) = ''123''
    \<and> cardholderName (after_inputs (app_props ''key'') short_inputs) = ''John Doe''"
    by code_simp
  then have nm: "\<not> fields_missing (after_inputs (app_props ''key'') short_inputs)"
    by (simp add: fields_missing_def)
  have tk: "card_token ''12a'' = ''12a''"
    by code_simp
  have sd: "take 16 (strip_digits ''12a'') = ''12''"
    by code_simp
  show ?thesis
    using nm f tk sd by (simp add: posted_tokens_def posts_handleSubmit build_request_def)
qed

text \<open>
  C9, amended. Every submission of the generic card form with its four fields filled
  sends exactly one request, whose customer email is \<open>customer@example.com\<close> and whose
  token brand is \<open>visa\<close> whatever the user typed, and whose token is the first 16
  characters of the card-number field with white space removed. When the field holds the
  formatting of an entry with at least four digits, that token is exactly the first 16
  digits of the entry.
\<close>

theorem generic_form_body:
  assumes "\<not> fields_missing st"
  shows "\<exists>r. posts (snd (handleSubmit P post st)) = [r]
       \<and> cust_email (body_customer (req_body r)) = ''customer@example.com''
       \<and> tok_brand (body_payment_token (req_body r)) = ''visa''
       \<and> tok_token (body_payment_token (req_body r))
           = take 16 (filter (\<lambda>c. \<not> is_space c) (cardNumber st))
       \<and> (\<forall>v. 4 \<le> length (filter is_digit v) \<and> cardNumber st = formatCardNumber v
              \<longrightarrow> tok_token (body_payment_token (req_body r)) = take 16 (filter is_digit v))"
proof -
  let ?r = "build_request P st"
  have p: "posts (snd (handleSubmit P post st)) = [?r]"
    using assms by (simp add: posts_handleSubmit)
  have tk: "tok_token (body_payment_token (req_body ?r))
      = take 16 (filter (\<lambda>c. \<not> is_space c) (cardNumber st))"
    by (simp add: build_request_def card_token_def substring_prefix)
  have dg: "tok_token (body_payment_token (req_body ?r)) = take 16 (filter is_digit v)"
    if v: "4 \<le> length (filter is_digit v)" and c: "cardNumber st = formatCardNumber v" for v
  proof -
    let ?m = "take 16 (filter is_digit v)"
    have "list_all is_digit ?m"
      by (auto simp add: list_all_iff dest: in_set_takeD)
    moreover have "?m \<noteq> []"
      using v by auto
    moreover have "length ?m \<le> 16"
      by simp
    ultimately have "filter (\<lambda>c. \<not> is_space c) (join_space (push_parts ?m 0 [])) = ?m"
      by (rule grouped_digits(3))
    then show ?thesis
      by (simp add: tk c formatCardNumber_digits [OF v])
  qed
  have "cust_email (body_customer (req_body ?r)) = ''customer@example.com''
      \<and> tok_brand (body_payment_token (req_body ?r)) = ''visa''"
    by (simp add: build_request_def)
  then show ?thesis
    using p tk dg by blast
qed

theorem generic_form_body_witness:
  "\<not> fields_missing filled_state
   \<and> 4 \<le> length (filter is_digit ''4242424242424242'')
   \<and> cardNumber filled_state = formatCardNumber ''4242424242424242''
   \<and> posted_tokens (snd (handleSubmit (app_props ''key'') succeeding_server filled_state))
       = [take 16 (filter is_digit ''4242424242424242'')]"
proof -
  have nm: "\<not> fields_missing filled_state"
    using filled_state_fields by (simp add: fields_missing_def)
  have n: "4 \<le> length (filter is_digit ''4242424242424242'')"
    by code_simp
  have c: "cardNumber filled_state = formatCardNumber ''4242424242424242''"
    by code_simp
  obtain r where r: "posts (snd (handleSubmit (app_props ''key'') succeeding_server filled_state)) = [r]"
    and t: "\<forall>v. 4 \<le> length (filter is_digit v) \<and> cardNumber filled_state = formatCardNumber v
              \<longrightarrow> tok_token (body_payment_token (req_body r)) = take 16 (filter is_digit v)"
    using generic_form_body [OF nm, of "app_props ''key''" succeeding_server] by blast
  have "tok_token (body_payment_token (req_body r)) = take 16 (filter is_digit ''4242424242424242'')"
    using t n c by blast
  then show ?thesis
    using nm n c r by (simp add: posted_tokens_def)
qed

section \<open>The card-entry fields after any inputs\<close>

text \<open>
  C10, as stated, fails: an entry with fewer than four digits is stored as typed, so after
  the input \<open>abc\<close> the card number is \<open>abc\<close>, which is not made of digits and spaces;
  and after two digits the expiry date is \<open>12/\<close>, a month without a year.
\<close>

theorem card_entry_counterexample:
  "cardNumber (after_inputs (app_props ''key'') [CardNumberInput ''abc'']) = ''abc''
   \<and> \<not> list_all digit_or_space ''abc''
   \<and> expiryDate (after_inputs (app_props ''key'') [ExpiryDateInput ''12'']) = ''12/''"
  by code_simp

text \<open>
  C10, amended. After every sequence of input events the card number has at most 19
  characters and, whenever it holds at least four digits, consists only of digits in
  blocks of at most four separated by single spaces; the CVV consists of at most four
  digits; the expiry date has at most five characters and is either at most one digit,
  or two digits followed by a slash and at most two more digits.
\<close>

theorem card_entry_invariant:
  "length (cardNumber (after_inputs P evs)) \<le> 19
   \<and> (4 \<le> length (filter is_digit (cardNumber (after_inputs P evs)))
        \<longrightarrow> card_blocks (cardNumber (after_inputs P evs)))
   \<and> cvv_inv (cvv (after_inputs P evs))
   \<and> expiry_inv (expiryDate (after_inputs P evs))"
proof -
  have "entry_inv (after_inputs P evs)"
    unfolding after_inputs_def by (rule entry_inv_foldl) (rule entry_inv_initial)
  then show ?thesis
    by (auto simp add: entry_inv_def card_inv_def)
qed

theorem card_entry_invariant_witness:
  "4 \<le> length (filter is_digit ''4242 4242 4242 4242'')
   \<and> card_blocks ''4242 4242 4242 4242'' \<and> cvv_inv ''123'' \<and> expiry_inv ''12/34''"
proof -
  have n: "4 \<le> length (filter is_digit ''4242 4242 4242 4242'')"
    by code_simp
  show ?thesis
    using n filled_state_fields card_entry_invariant [of "app_props ''key''" typed_inputs]
    by (simp add: filled_state_def)
qed

section \<open>The arithmetic on amounts\<close>

text \<open>
  C8, as stated, fails: amounts are binary64 numbers and the one computation on them,
  the Stripe form's \<open>Math.round(amount * 100)\<close>, is done in binary floating point. For the
  amount 90071992547409.93 it gives 9007199254740994 cents, one more than the amount
  holds; for 1.005 it gives 100, where the exact product 100.5 is rounded to 101.
\<close>

theorem cents_in_binary_arithmetic_counterexample:
  "amountInCents \<lparr>co_amount = 9007199254740993 / 100, co_currency = ''USD''\<rparr> = 9007199254740994
   \<and> amountInCents \<lparr>co_amount = 1005 / 1000, co_currency = ''USD''\<rparr> = 100
   \<and> Math_round (1005 / 1000 * 100) = 101"
  by code_simp

text \<open>
  C8, amended. Amounts are JavaScript numbers, that is binary64 floating point, and no
  fee is computed. The only arithmetic on an amount is the Stripe form's
  \<open>Math.round(amount * 100)\<close>; for every amount of two decimals of at most \<open>2 ^ 50\<close> minor
  units its result is exactly the amount's number of minor units.
\<close>

theorem cents_exact_below_2_50:
  assumes "0 \<le> c" and "c \<le> 2 ^ 50"
  shows "amountInCents \<lparr>co_amount = of_int c / 100, co_currency = cur\<rparr> = c"
proof (cases "c = 0")
  case True
  have "\<lfloor>(1::rat) / 2\<rfloor> = 0"
    by (intro floor_unique) simp_all
  then show ?thesis
    using True by (simp add: amountInCents_def binary64_def Math_round_def)
next
  case False
  with assms have cpos: "0 < c" by simp
  let ?c = "of_int c :: rat"
  let ?x = "?c / 100"
  let ?a = "binary64 ?x"
  let ?y = "?a * 100"
  let ?b = "binary64 ?y"
  have c1: "1 \<le> ?c"
    using cpos by simp
  have cu: "?c \<le> 2 ^ 50"
    using assms(2) by (metis of_int_le_iff of_int_numeral of_int_power)
  have tiny: "(power_int 2 (- 1022) :: rat) \<le> 1 / 200"
  proof -
    have "(2::rat) ^ 8 \<le> 2 ^ 1022"
      by (rule power_increasing) simp_all
    then have "(200::rat) \<le> 2 ^ 1022"
      by simp
    then have "1 / (2::rat) ^ 1022 \<le> 1 / 200"
      by (intro divide_left_mono) simp_all
    then show ?thesis
      by (simp add: power_int_minus_divide)
  qed
  have xpos: "0 < ?x" and xbig: "power_int 2 (- 1022) \<le> ?x"
    using c1 tiny by simp_all
  have ea: "\<bar>?a - ?x\<bar> \<le> ?x / 2 ^ 53"
    using xpos xbig by (rule binary64_error)
  then have ey: "\<bar>?y - ?c\<bar> \<le> ?c / 2 ^ 53"
    by (simp add: abs_le_iff field_simps)
  have small: "?c / 2 ^ 53 \<le> ?c / 2"
    using c1 by (intro divide_left_mono) simp_all
  have ylow: "?c / 2 \<le> ?y"
    using ey small by (simp only: abs_le_iff) linarith
  have yup: "?y \<le> 2 * ?c"
    using ey small c1 by (simp only: abs_le_iff) linarith
  have ypos: "0 < ?y" and ybig: "power_int 2 (- 1022) \<le> ?y"
    using ylow c1 tiny by simp_all
  have eb: "\<bar>?b - ?y\<bar> \<le> ?y / 2 ^ 53"
    using ypos ybig by (rule binary64_error)
  have "\<bar>?b - ?c\<bar> \<le> \<bar>?b - ?y\<bar> + \<bar>?y - ?c\<bar>"
    by simp
  also have "\<dots> \<le> ?y / 2 ^ 53 + ?c / 2 ^ 53"
    using eb ey by simp
  also have "\<dots> \<le> 3 * ?c / 2 ^ 53"
    using yup by (simp add: field_simps)
  also have "\<dots> < 1 / 2"
    using cu by (simp add: field_simps)
  finally have near: "\<bar>?b - ?c\<bar> < 1 / 2" .
  from near have lo: "?c \<le> ?b + 1 / 2" and hi: "?b + 1 / 2 < ?c + 1"
    by (simp_all only: abs_less_iff) linarith+
  have "\<lfloor>?b + 1 / 2\<rfloor> = c"
    using lo hi by (rule floor_unique)
  then show ?thesis
    by (simp add: amountInCents_def Math_round_def)
qed

theorem cents_exact_below_2_50_witness:
  "(0::int) \<le> 439 \<and> (439::int) \<le> 2 ^ 50
   \<and> amountInCents \<lparr>co_amount = 439 / 100, co_currency = ''USD''\<rparr> = 439"
  using cents_exact_below_2_50 [of 439 "''USD''"] by simp

end
